theory Spec2Isabelle
  imports Main "HOL-Library.Sublist"
begin

section \<open>The tag-facing render context of the template engine (render/context.go)\<close>

text \<open>
  The development embeds \<^verbatim>\<open>render/context.go\<close>: the struct \<^verbatim>\<open>renderContext\<close> and its
  methods. Go values that live behind a reference (the bindings map) are kept in an explicit
  store, since a \<^verbatim>\<open>renderContext\<close> is passed by value while the map it points to is shared.
\<close>

subsection \<open>Values, errors and panics\<close>

text \<open>
  A Go \<^verbatim>\<open>interface{}\<close> holds \<^verbatim>\<open>nil\<close> or a value of some dynamic type. \<open>VNil\<close> is the zero
  value of \<^verbatim>\<open>interface{}\<close>, which a map read returns for a key that is not present.
\<close>

datatype anyval = VNil | VBool bool | VInt int | VString string

text \<open>
  Go's \<^verbatim>\<open>error\<close> is an open interface; the constructors are the dynamic types that reach
  this file: \<^verbatim>\<open>expression.InterpreterError\<close> (a string type, the one the type switch of
  \<^verbatim>\<open>EvaluateString\<close> recognises), the \<^verbatim>\<open>*os.PathError\<close> of \<^verbatim>\<open>ioutil.ReadFile\<close>
  (operation, path, cause), an error of the template parser, and an error built from a
  message (\<^verbatim>\<open>fmt.Errorf\<close>, \<^verbatim>\<open>errors.New\<close>).
\<close>

datatype error =
    InterpreterError string
  | PathError string string string
  | ParseError string
  | ErrorString string

text \<open>The method \<^verbatim>\<open>Error()\<close> of each of them.\<close>

fun Error :: "error \<Rightarrow> string" where
  "Error (InterpreterError s) = s"
| "Error (PathError op path cause) = op @ '' '' @ path @ '': '' @ cause"
| "Error (ParseError s) = s"
| "Error (ErrorString s) = s"

text \<open>
  The value a \<^verbatim>\<open>panic\<close> carries and \<^verbatim>\<open>recover()\<close> returns: an error value, any other
  non-nil value, kept as the text the verb \<^verbatim>\<open>%s\<close> prints for it, or \<^verbatim>\<open>nil\<close>. The last
  is the value of \<^verbatim>\<open>panic(nil)\<close>, and of \<^verbatim>\<open>panic(err)\<close> with a nil \<open>err\<close>: with the
  semantics of Go before version 1.21, which a package with no \<^verbatim>\<open>go\<close> directive of 1.21 or
  later keeps, \<^verbatim>\<open>recover()\<close> returns \<^verbatim>\<open>nil\<close> for it, as it does when nothing panicked.
\<close>

datatype panic_value = PanicNil | PanicError error | PanicOther string

subsection \<open>The data of a render context\<close>

text \<open>
  The bindings of a scope are a Go map \<^verbatim>\<open>map[string]interface{}\<close>. A map value is a
  reference: copying a struct that holds it copies the reference, not the entries. The store
  maps each reference to the entries of its map.
\<close>

type_synonym ref = nat

type_synonym Bindings = "string \<rightharpoonup> anyval"

type_synonym heap = "ref \<Rightarrow> Bindings"

text \<open>An \<^verbatim>\<open>io.Writer\<close> is modelled by the bytes written to it so far.\<close>

type_synonym Writer = string

text \<open>
  The declarations of \<^verbatim>\<open>nodeContext\<close>, of its settings and of the AST node types are in
  files of the package other than \<^verbatim>\<open>context.go\<close>. Each record below has the fields that
  \<^verbatim>\<open>context.go\<close> reads: \<^verbatim>\<open>c.ctx.bindings\<close>, \<^verbatim>\<open>c.ctx.settings.ExpressionConfig\<close>,
  \<^verbatim>\<open>c.node.Chunk.Name\<close>, \<^verbatim>\<open>c.node.Chunk.Args\<close>, \<^verbatim>\<open>c.cn.Chunk.Name\<close>,
  \<^verbatim>\<open>c.cn.Chunk.Args\<close> and \<^verbatim>\<open>c.cn.Body\<close>. The type \<open>'n\<close> is the type of an AST node (the
  Go interface \<^verbatim>\<open>ASTNode\<close>), \<open>'x\<close> the configuration of the expression language.
\<close>

text \<open>
  Modelled from the spec: the settings type, declared outside \<^verbatim>\<open>context.go\<close>
  (section 2, Evaluation Settings: read-only configuration, among it how the expression
  language is configured).
\<close>

record 'x Config =
  ExpressionConfig :: 'x

text \<open>
  Modelled from the spec: the struct \<^verbatim>\<open>nodeContext\<close>, declared outside \<^verbatim>\<open>context.go\<close>
  (section 3, Node Context: it owns one bindings store and refers to the settings). The
  field \<open>bindings\<close> is the reference of the map the context owns; the map exists, a
  context over the nil map is not a value of this type.
\<close>

record 'x nodeContext =
  bindings :: ref
  settings :: "'x Config"

text \<open>
  Modelled from the spec: the chunk of a tag, declared outside \<^verbatim>\<open>context.go\<close>
  (section 3, AST Node: the tag name and the raw argument text).
\<close>

record Chunk =
  Name :: string
  Args :: string

text \<open>
  Modelled from the spec: the functional node, declared outside \<^verbatim>\<open>context.go\<close>
  (section 3: a tag name and raw argument text).
\<close>

record ASTFunctional =
  Chunk :: Chunk

text \<open>
  Modelled from the spec: the block node, declared outside \<^verbatim>\<open>context.go\<close>
  (section 3: a tag name, raw argument text and the body, an ordered sequence of nodes).
\<close>

record 'n ASTBlock =
  Chunk :: Chunk
  Body :: "'n list"

text \<open>
  \<^verbatim>\<open>type renderContext struct { ctx nodeContext; node *ASTFunctional; cn *ASTBlock }\<close>.
  A pointer is \<open>None\<close> when it is \<^verbatim>\<open>nil\<close>; the AST is never written to by this file, so
  a non-nil pointer is the node it points to.
\<close>

record ('n, 'x) renderContext =
  ctx :: "'x nodeContext"
  node :: "ASTFunctional option"
  cn :: "'n ASTBlock option"

subsection \<open>The tag's name and arguments\<close>

text \<open>
  \<^verbatim>\<open>switch { case c.node != nil: return c.node.Chunk.Args
           case c.cn != nil: return c.cn.Chunk.Args
           default: return "" }\<close>
\<close>

definition TagArgs :: "('n, 'x) renderContext \<Rightarrow> string" where
  "TagArgs c =
     (case node c of
        Some n \<Rightarrow> Args (ASTFunctional.Chunk n)
      | None \<Rightarrow>
          (case cn c of
             Some b \<Rightarrow> Args (ASTBlock.Chunk b)
           | None \<Rightarrow> ''''))"

definition TagName :: "('n, 'x) renderContext \<Rightarrow> string" where
  "TagName c =
     (case node c of
        Some n \<Rightarrow> Name (ASTFunctional.Chunk n)
      | None \<Rightarrow>
          (case cn c of
             Some b \<Rightarrow> Name (ASTBlock.Chunk b)
           | None \<Rightarrow> ''''))"

subsection \<open>Library functions of Go used by the file\<close>

text \<open>
  \<^verbatim>\<open>strings.Contains(s, substr)\<close>: whether \<open>substr\<close> occurs in \<open>s\<close> as a contiguous run of
  bytes, searched from each position of \<open>s\<close> in turn.
\<close>

fun Contains :: "string \<Rightarrow> string \<Rightarrow> bool" where
  "Contains [] substr = (substr = [])"
| "Contains (x # xs) substr = (prefix substr (x # xs) \<or> Contains xs substr)"

text \<open>
  \<^verbatim>\<open>fmt.Sprintf\<close>, for the two verbs the file uses and string operands: \<^verbatim>\<open>%%\<close> prints a
  percent sign, \<^verbatim>\<open>%s\<close> prints the next operand, and every other byte of the format prints
  as it is. A \<^verbatim>\<open>%s\<close> with no operand left prints \<^verbatim>\<open>%!s(MISSING)\<close>. The other verbs, and
  the markers Go prints for operands left over or for a format that ends in a lone percent
  sign, are not modelled: both calls of the file have a constant format with two \<^verbatim>\<open>%s\<close> and
  pass two operands.
\<close>

fun Sprintf :: "string \<Rightarrow> string list \<Rightarrow> string" where
  "Sprintf (c # d # fs) args =
     (if c = CHR ''%'' \<and> d = CHR ''%'' then CHR ''%'' # Sprintf fs args
      else if c = CHR ''%'' \<and> d = CHR ''s'' then
        (case args of
           a # as \<Rightarrow> a @ Sprintf fs as
         | [] \<Rightarrow> ''%!s(MISSING)'' @ Sprintf fs [])
      else c # Sprintf (d # fs) args)"
| "Sprintf fs args = fs"

text \<open>\<^verbatim>\<open>fmt.Errorf\<close> builds an error whose message is the formatted text.\<close>

definition Errorf :: "string \<Rightarrow> string list \<Rightarrow> error" where
  "Errorf format args = ErrorString (Sprintf format args)"

text \<open>
  What \<^verbatim>\<open>%s\<close> prints for a recovered value: the message of an error, the text of another
  value, and \<^verbatim>\<open>%!s(<nil>)\<close> for \<^verbatim>\<open>nil\<close>.
\<close>

fun fmt_s :: "panic_value \<Rightarrow> string" where
  "fmt_s PanicNil = ''%!s(<nil>)''"
| "fmt_s (PanicError e) = Error e"
| "fmt_s (PanicOther s) = s"

subsection \<open>The collaborators\<close>

text \<open>\<^verbatim>\<open>expression.NewContext(bindings, config)\<close> pairs the bindings map with the configuration.\<close>

datatype 'x expression_Context = NewContext ref 'x

text \<open>
  The functions \<^verbatim>\<open>context.go\<close> calls and does not define are parameters of the model:
  \<^item> \<^verbatim>\<open>expression.EvaluateString(source, ctx)\<close>, which returns a value and an error, or
    panics (\<open>Inl\<close>); it is handed the bindings map and may write to it;
  \<^item> \<^verbatim>\<open>ioutil.ReadFile(filename)\<close>, against the file system as it is during the call;
  \<^item> \<^verbatim>\<open>settings.Parse(source)\<close>, the template parser;
  \<^item> \<^verbatim>\<open>renderNode(node, w, ctx)\<close> and \<^verbatim>\<open>ctx.RenderASTSequence(w, nodes)\<close>, which write to
    \<open>w\<close>, may write to the bindings map the node context refers to, and return an error
    or \<^verbatim>\<open>nil\<close>.
  A panic raised inside the parser or the renderer passes through the methods below
  untouched (none of them recovers there), and is left out of their result types.
\<close>

record ('n, 'x) collaborators =
  expression_EvaluateString ::
    "string \<Rightarrow> 'x expression_Context \<Rightarrow> heap \<Rightarrow> (panic_value + anyval \<times> error option) \<times> heap"
  ioutil_ReadFile :: "string \<Rightarrow> error + string"
  Parse :: "'x Config \<Rightarrow> string \<Rightarrow> error + 'n"
  renderNode :: "'n \<Rightarrow> Writer \<Rightarrow> 'x nodeContext \<Rightarrow> heap \<Rightarrow> error option \<times> Writer \<times> heap"
  RenderASTSequence ::
    "'x nodeContext \<Rightarrow> Writer \<Rightarrow> 'n list \<Rightarrow> heap \<Rightarrow> error option \<times> Writer \<times> heap"

subsection \<open>Evaluating expressions\<close>

text \<open>
  \<^verbatim>\<open>func (c renderContext) EvaluateString(source string) (out interface{}, err error) {
    defer func() {
      if r := recover(); r != nil {
        switch e := r.(type) {
        case expression.InterpreterError: err = e
        default: panic(fmt.Errorf("%s during evaluation of %s", e, source))
        }
      }
    }()
    return expression.EvaluateString(source, expression.NewContext(...))
  }\<close>
  The deferred function runs when the call to the evaluator panics; the named results are
  then still \<^verbatim>\<open>nil\<close>. When the recovered value is \<^verbatim>\<open>nil\<close> the guard \<^verbatim>\<open>r != nil\<close> fails, the
  panic has been stopped by \<^verbatim>\<open>recover\<close>, and the call returns the named results as they are.
  A recovered \<^verbatim>\<open>expression.InterpreterError\<close> becomes the result \<open>err\<close>; any other value is
  wrapped by \<^verbatim>\<open>fmt.Errorf\<close> and raised again. The result is \<open>Inl\<close> when the call panics,
  \<open>Inr (out, err)\<close> when it returns.
\<close>

definition EvaluateString ::
  "('n, 'x) collaborators \<Rightarrow> ('n, 'x) renderContext \<Rightarrow> string \<Rightarrow> heap
     \<Rightarrow> (panic_value + anyval \<times> error option) \<times> heap" where
  "EvaluateString env c source h =
     (case expression_EvaluateString env source
             (NewContext (bindings (ctx c)) (ExpressionConfig (settings (ctx c)))) h of
        (Inr (out, err), h') \<Rightarrow> (Inr (out, err), h')
      | (Inl r, h') \<Rightarrow>
          (if r \<noteq> PanicNil then
             (case r of
                PanicError (InterpreterError e) \<Rightarrow> (Inr (VNil, Some (InterpreterError e)), h')
              | _ \<Rightarrow>
                  (Inl (PanicError (Errorf ''%s during evaluation of %s'' [fmt_s r, source])),
                   h'))
           else (Inr (VNil, None), h')))"

text \<open>\<^verbatim>\<open>return c.EvaluateString(fmt.Sprintf("%%%s %s", tag, source))\<close>\<close>

definition EvaluateStatement ::
  "('n, 'x) collaborators \<Rightarrow> ('n, 'x) renderContext \<Rightarrow> string \<Rightarrow> string \<Rightarrow> heap
     \<Rightarrow> (panic_value + anyval \<times> error option) \<times> heap" where
  "EvaluateStatement env c tag source h =
     EvaluateString env c (Sprintf ''%%%s %s'' [tag, source]) h"

subsection \<open>Reading and writing bindings\<close>

text \<open>
  \<^verbatim>\<open>return c.ctx.bindings[name]\<close>: the entry of the map, or the zero value \<^verbatim>\<open>nil\<close> when the
  map has no entry for \<open>name\<close>.
\<close>

definition Get :: "('n, 'x) renderContext \<Rightarrow> string \<Rightarrow> heap \<Rightarrow> anyval" where
  "Get c name h = (case h (bindings (ctx c)) name of Some v \<Rightarrow> v | None \<Rightarrow> VNil)"

text \<open>
  \<^verbatim>\<open>c.ctx.bindings[name] = value\<close>: the receiver is a copy of the struct, the map it
  refers to is the caller's.
\<close>

definition Set :: "('n, 'x) renderContext \<Rightarrow> string \<Rightarrow> anyval \<Rightarrow> heap \<Rightarrow> heap" where
  "Set c name v h = h (bindings (ctx c) := (h (bindings (ctx c))) (name \<mapsto> v))"

text \<open>
  \<^verbatim>\<open>for k, v := range bindings { c.ctx.bindings[k] = v }\<close>. The argument is given as the
  list of its entries in the order the loop visits them.
\<close>

definition UpdateBindings ::
  "('n, 'x) renderContext \<Rightarrow> (string \<times> anyval) list \<Rightarrow> heap \<Rightarrow> heap" where
  "UpdateBindings c kvs h =
     fold (\<lambda>(k, v) h'. h' (bindings (ctx c) := (h' (bindings (ctx c))) (k \<mapsto> v))) kvs h"

subsection \<open>Rendering\<close>

text \<open>
  \<^verbatim>\<open>if c.cn == nil { return nil }
  return c.ctx.RenderASTSequence(w, c.cn.Body)\<close>
\<close>

definition RenderChildren ::
  "('n, 'x) collaborators \<Rightarrow> ('n, 'x) renderContext \<Rightarrow> Writer \<Rightarrow> heap
     \<Rightarrow> error option \<times> Writer \<times> heap" where
  "RenderChildren env c w h =
     (case cn c of
        None \<Rightarrow> (None, w, h)
      | Some b \<Rightarrow> RenderASTSequence env (ctx c) w (Body b) h)"

text \<open>
  \<^verbatim>\<open>buf := new(bytes.Buffer)
  if err := c.RenderChildren(buf); err != nil { return "", err }
  return buf.String(), nil\<close>
\<close>

definition InnerString ::
  "('n, 'x) collaborators \<Rightarrow> ('n, 'x) renderContext \<Rightarrow> heap
     \<Rightarrow> (string \<times> error option) \<times> heap" where
  "InnerString env c h =
     (case RenderChildren env c '''' h of
        (Some err, buf, h') \<Rightarrow> (('''', Some err), h')
      | (None, buf, h') \<Rightarrow> ((buf, None), h'))"

text \<open>
  \<^verbatim>\<open>source, err := ioutil.ReadFile(filename);  if err != nil { return "", err }
  ast, err := c.ctx.settings.Parse(string(source));  if err != nil { return "", err }
  buf := new(bytes.Buffer)
  if err := renderNode(ast, buf, c.ctx); err != nil { return "", err }
  return buf.String(), nil\<close>
\<close>

definition RenderFile ::
  "('n, 'x) collaborators \<Rightarrow> ('n, 'x) renderContext \<Rightarrow> string \<Rightarrow> heap
     \<Rightarrow> (string \<times> error option) \<times> heap" where
  "RenderFile env c filename h =
     (case ioutil_ReadFile env filename of
        Inl err \<Rightarrow> (('''', Some err), h)
      | Inr source \<Rightarrow>
          (case Parse env (settings (ctx c)) source of
             Inl err \<Rightarrow> (('''', Some err), h)
           | Inr ast \<Rightarrow>
               (case renderNode env ast '''' (ctx c) h of
                  (Some err, buf, h') \<Rightarrow> (('''', Some err), h')
                | (None, buf, h') \<Rightarrow> ((buf, None), h'))))"

text \<open>
  \<^verbatim>\<open>args := c.TagArgs()
  if strings.Contains(args, "{{") {
    p, err := c.ctx.settings.Parse(args);  if err != nil { return "", err }
    buf := new(bytes.Buffer)
    err = renderNode(p, buf, c.ctx);  if err != nil { return "", err }
    return buf.String(), nil
  }
  return args, nil\<close>
\<close>

definition ParseTagArgs ::
  "('n, 'x) collaborators \<Rightarrow> ('n, 'x) renderContext \<Rightarrow> heap
     \<Rightarrow> (string \<times> error option) \<times> heap" where
  "ParseTagArgs env c h =
     (let args = TagArgs c in
      if Contains args ''{{'' then
        (case Parse env (settings (ctx c)) args of
           Inl err \<Rightarrow> (('''', Some err), h)
         | Inr p \<Rightarrow>
             (case renderNode env p '''' (ctx c) h of
                (Some err, buf, h') \<Rightarrow> (('''', Some err), h')
              | (None, buf, h') \<Rightarrow> ((buf, None), h')))
      else ((args, None), h))"

section \<open>A sample engine\<close>

text \<open>
  The parser, the renderer, the expression evaluator and the file system are outside
  \<^verbatim>\<open>context.go\<close>. The definitions of this section are one small instance of them, the
  concrete input of the instances stated after the theorems.
\<close>

text \<open>
  Modelled from the spec: AST nodes, declared outside \<^verbatim>\<open>context.go\<close> (glossary: text runs
  and tag invocations). A text run, an object \<^verbatim>\<open>{{ name }}\<close>, a tag that assigns a value to
  a name, and a tag whose rendering fails.
\<close>

datatype sampleNode = SText string | SObject string | SAssign string anyval | SBroken

text \<open>The text written for a value: a string as it is, nothing for the other values.\<close>

fun sample_print :: "anyval \<Rightarrow> string" where
  "sample_print (VString s) = s"
| "sample_print v = ''''"

text \<open>Render contexts around a functional node, around a block node, and around no node.\<close>

definition sample_tag :: "'x nodeContext \<Rightarrow> string \<Rightarrow> string \<Rightarrow> (sampleNode, 'x) renderContext" where
  "sample_tag nc name args =
     \<lparr>ctx = nc, node = Some \<lparr>ASTFunctional.Chunk = \<lparr>Name = name, Args = args\<rparr>\<rparr>, cn = None\<rparr>"

definition sample_block ::
  "'x nodeContext \<Rightarrow> string \<Rightarrow> string \<Rightarrow> sampleNode list \<Rightarrow> (sampleNode, 'x) renderContext" where
  "sample_block nc name args body =
     \<lparr>ctx = nc, node = None,
      cn = Some \<lparr>ASTBlock.Chunk = \<lparr>Name = name, Args = args\<rparr>, Body = body\<rparr>\<rparr>"

definition sample_bare :: "'x nodeContext \<Rightarrow> (sampleNode, 'x) renderContext" where
  "sample_bare nc = \<lparr>ctx = nc, node = None, cn = None\<rparr>"

text \<open>
  Modelled from the spec: \<^verbatim>\<open>renderNode\<close>, defined outside \<^verbatim>\<open>context.go\<close> (section 4.1:
  plain text is written verbatim; for a tag, a render context is built around the node on
  the node context at hand and the tag's behaviour is run, which calls back into the render
  context). The object reads its name with \<open>Get\<close>, the assigning tag writes with \<open>Set\<close>.
\<close>

fun sample_renderNode ::
  "sampleNode \<Rightarrow> Writer \<Rightarrow> unit nodeContext \<Rightarrow> heap \<Rightarrow> error option \<times> Writer \<times> heap" where
  "sample_renderNode (SText s) w nc h = (None, w @ s, h)"
| "sample_renderNode (SObject n) w nc h = (None, w @ sample_print (Get (sample_bare nc) n h), h)"
| "sample_renderNode (SAssign n v) w nc h = (None, w, Set (sample_tag nc ''assign'' n) n v h)"
| "sample_renderNode SBroken w nc h = (Some (ErrorString ''broken tag''), w, h)"

text \<open>
  Modelled from the spec: \<^verbatim>\<open>RenderASTSequence\<close>, defined outside \<^verbatim>\<open>context.go\<close>
  (section 4.1: the nodes are rendered in order; the first failure ends the sequence and is
  returned, and what was written stays written).
\<close>

fun sample_RenderASTSequence ::
  "unit nodeContext \<Rightarrow> Writer \<Rightarrow> sampleNode list \<Rightarrow> heap \<Rightarrow> error option \<times> Writer \<times> heap" where
  "sample_RenderASTSequence nc w [] h = (None, w, h)"
| "sample_RenderASTSequence nc w (n # ns) h =
     (case sample_renderNode n w nc h of
        (Some err, w', h') \<Rightarrow> (Some err, w', h')
      | (None, w', h') \<Rightarrow> sample_RenderASTSequence nc w' ns h')"

text \<open>
  Modelled from the spec: the parser, defined outside \<^verbatim>\<open>context.go\<close> (section 6:
  \<^verbatim>\<open>Parse(sourceText)\<close> gives an AST or an error). It knows three templates, fails on any
  other source with an object delimiter, and takes the rest as plain text.
\<close>

definition sample_Parse :: "unit Config \<Rightarrow> string \<Rightarrow> error + sampleNode" where
  "sample_Parse cfg source =
     (if source = ''{{ name }}'' then Inr (SObject ''name'')
      else if source = ''{% assign x = 1 %}'' then Inr (SAssign ''x'' (VInt 1))
      else if source = ''{% broken %}'' then Inr SBroken
      else if Contains source ''{{'' then Inl (ParseError source)
      else Inr (SText source))"

text \<open>
  Modelled from the spec: the file system (section 6: a byte-level read by path). Four
  files exist; reading any other path fails.
\<close>

definition sample_ReadFile :: "string \<Rightarrow> error + string" where
  "sample_ReadFile filename =
     (if filename = ''show.tpl'' then Inr ''{{ name }}''
      else if filename = ''assign.tpl'' then Inr ''{% assign x = 1 %}''
      else if filename = ''open.tpl'' then Inr ''{{''
      else if filename = ''broken.tpl'' then Inr ''{% broken %}''
      else Inl (PathError ''open'' filename ''no such file or directory''))"

text \<open>
  Modelled from the spec: the expression evaluator, outside \<^verbatim>\<open>context.go\<close> (section 6; it
  signals failure by a fault). The sample looks a name up in the bindings; it panics with an
  \<^verbatim>\<open>InterpreterError\<close> on one source, with a runtime error on another, and with
  \<^verbatim>\<open>nil\<close> on a third.
\<close>

definition sample_EvaluateString ::
  "string \<Rightarrow> unit expression_Context \<Rightarrow> heap \<Rightarrow> (panic_value + anyval \<times> error option) \<times> heap" where
  "sample_EvaluateString source ectx h =
     (case ectx of
        NewContext r cfg \<Rightarrow>
          (if source = ''name | nofilter'' then
             (Inl (PanicError (InterpreterError ''undefined filter: nofilter'')), h)
           else if source = ''name[1]'' then
             (Inl (PanicOther ''runtime error: index out of range''), h)
           else if source = ''name | nilpanic'' then (Inl PanicNil, h)
           else (Inr (case h r source of Some v \<Rightarrow> v | None \<Rightarrow> VNil, None), h)))"

definition sample_env :: "(sampleNode, unit) collaborators" where
  "sample_env =
     \<lparr>expression_EvaluateString = sample_EvaluateString,
      ioutil_ReadFile = sample_ReadFile,
      Parse = sample_Parse,
      renderNode = sample_renderNode,
      RenderASTSequence = sample_RenderASTSequence\<rparr>"

text \<open>A node context on the map at reference \<open>0\<close>, and a store that binds \<open>name\<close> there.\<close>

definition sample_ctx :: "unit nodeContext" where
  "sample_ctx = \<lparr>bindings = 0, settings = \<lparr>ExpressionConfig = ()\<rparr>\<rparr>"

definition sample_heap :: heap where
  "sample_heap = (\<lambda>r. Map.empty) (0 := [''name'' \<mapsto> VString ''x''])"

section \<open>Properties\<close>

subsection \<open>Facts about the library functions\<close>

text \<open>\<open>Contains s t\<close> holds exactly when \<open>t\<close> occurs in \<open>s\<close>: some bytes, then \<open>t\<close>, then the rest.\<close>

lemma Contains_iff: "Contains s t \<longleftrightarrow> (\<exists>ps ss. s = ps @ t @ ss)"
proof (induction s)
  case Nil
  then show ?case by auto
next
  case (Cons x xs)
  show ?case
  proof
    assume "Contains (x # xs) t"
    then consider "prefix t (x # xs)" | "Contains xs t" by auto
    then show "\<exists>ps ss. x # xs = ps @ t @ ss"
    proof cases
      case 1
      then obtain ss where "x # xs = t @ ss" by (auto simp: prefix_def)
      then have "x # xs = [] @ t @ ss" by simp
      then show ?thesis by blast
    next
      case 2
      with Cons.IH obtain ps ss where "xs = ps @ t @ ss" by blast
      then have "x # xs = (x # ps) @ t @ ss" by simp
      then show ?thesis by blast
    qed
  next
    assume "\<exists>ps ss. x # xs = ps @ t @ ss"
    then obtain ps ss where eq: "x # xs = ps @ t @ ss" by blast
    show "Contains (x # xs) t"
    proof (cases ps)
      case Nil
      with eq have "prefix t (x # xs)" by (simp add: prefix_def)
      then show ?thesis by simp
    next
      case (Cons p ps')
      with eq have "xs = ps' @ t @ ss" by simp
      with Cons.IH have "Contains xs t" by blast
      then show ?thesis by simp
    qed
  qed
qed

lemma Contains_sublist: "Contains s t = sublist t s"
  by (simp add: Contains_iff sublist_def)

lemma Sprintf_statement: "Sprintf ''%%%s %s'' [tag, source] = ''%'' @ tag @ '' '' @ source"
  by simp

lemma Sprintf_during:
  "Sprintf ''%s during evaluation of %s'' [e, source] = e @ '' during evaluation of '' @ source"
  by simp

lemma Errorf_during:
  "Errorf ''%s during evaluation of %s'' [e, source] =
     ErrorString (e @ '' during evaluation of '' @ source)"
  unfolding Errorf_def Sprintf_during ..

subsection \<open>EvaluateString and EvaluateStatement\<close>

text \<open>
  A panic with the nil value is stopped and not raised again: the call returns a nil value
  and a nil error.
\<close>

lemma EvaluateString_nil_panic:
  "expression_EvaluateString env source
      (NewContext (bindings (ctx c)) (ExpressionConfig (settings (ctx c)))) h = (Inl PanicNil, h')
   \<Longrightarrow> EvaluateString env c source h = (Inr (VNil, None), h')"
  by (simp add: EvaluateString_def)

text \<open>
  C1, as the code has it: \<open>EvaluateString\<close> confines the panics of the expression evaluator
  that carry a value other than nil. When the evaluator panics with an \<open>InterpreterError\<close>,
  \<open>EvaluateString\<close> returns normally, with a nil value and that error as its error result.
  When the evaluator panics with any other value \<open>r\<close> that is not nil, \<open>EvaluateString\<close>
  panics with an error whose message is the text of \<open>r\<close> followed by the source being
  evaluated. When the evaluator returns, its results are returned. So every panic that
  leaves \<open>EvaluateString\<close> carries the source text and comes from a panic of the evaluator
  whose value was neither nil nor an \<open>InterpreterError\<close>.
\<close>

theorem EvaluateString_confines_panics:
  "(expression_EvaluateString env source
      (NewContext (bindings (ctx c)) (ExpressionConfig (settings (ctx c)))) h
      = (Inl (PanicError (InterpreterError m)), h')
    \<longrightarrow> EvaluateString env c source h = (Inr (VNil, Some (InterpreterError m)), h')) \<and>
   (expression_EvaluateString env source
      (NewContext (bindings (ctx c)) (ExpressionConfig (settings (ctx c)))) h = (Inl r, h') \<and>
    r \<noteq> PanicNil \<and> (\<forall>e. r \<noteq> PanicError (InterpreterError e))
    \<longrightarrow> EvaluateString env c source h =
          (Inl (PanicError (ErrorString (fmt_s r @ '' during evaluation of '' @ source))), h')) \<and>
   (expression_EvaluateString env source
      (NewContext (bindings (ctx c)) (ExpressionConfig (settings (ctx c)))) h = (Inr res, h')
    \<longrightarrow> EvaluateString env c source h = (Inr res, h')) \<and>
   (EvaluateString env c source h = (Inl p, k)
    \<longrightarrow> (\<exists>r. p = PanicError (ErrorString (fmt_s r @ '' during evaluation of '' @ source)) \<and>
             r \<noteq> PanicNil \<and> (\<forall>e. r \<noteq> PanicError (InterpreterError e)) \<and>
             expression_EvaluateString env source
               (NewContext (bindings (ctx c)) (ExpressionConfig (settings (ctx c)))) h
               = (Inl r, k)))"
proof (intro conjI impI)
  assume "expression_EvaluateString env source
      (NewContext (bindings (ctx c)) (ExpressionConfig (settings (ctx c)))) h
      = (Inl (PanicError (InterpreterError m)), h')"
  then show "EvaluateString env c source h = (Inr (VNil, Some (InterpreterError m)), h')"
    by (simp add: EvaluateString_def)
next
  assume a: "expression_EvaluateString env source
      (NewContext (bindings (ctx c)) (ExpressionConfig (settings (ctx c)))) h = (Inl r, h') \<and>
    r \<noteq> PanicNil \<and> (\<forall>e. r \<noteq> PanicError (InterpreterError e))"
  then show "EvaluateString env c source h =
          (Inl (PanicError (ErrorString (fmt_s r @ '' during evaluation of '' @ source))), h')"
    by (auto simp: EvaluateString_def Errorf_during split: panic_value.splits error.splits)
next
  assume "expression_EvaluateString env source
      (NewContext (bindings (ctx c)) (ExpressionConfig (settings (ctx c)))) h = (Inr res, h')"
  then show "EvaluateString env c source h = (Inr res, h')"
    by (cases res) (simp add: EvaluateString_def)
next
  assume esc: "EvaluateString env c source h = (Inl p, k)"
  obtain out k' where call: "expression_EvaluateString env source
      (NewContext (bindings (ctx c)) (ExpressionConfig (settings (ctx c)))) h = (out, k')"
    by (cases "expression_EvaluateString env source
      (NewContext (bindings (ctx c)) (ExpressionConfig (settings (ctx c)))) h")
  show "\<exists>r. p = PanicError (ErrorString (fmt_s r @ '' during evaluation of '' @ source)) \<and>
             r \<noteq> PanicNil \<and> (\<forall>e. r \<noteq> PanicError (InterpreterError e)) \<and>
             expression_EvaluateString env source
               (NewContext (bindings (ctx c)) (ExpressionConfig (settings (ctx c)))) h
               = (Inl r, k)"
  proof (cases out)
    case (Inr res)
    with call esc show ?thesis
      by (cases res) (simp add: EvaluateString_def)
  next
    case (Inl r)
    with call esc show ?thesis
      by (auto simp: EvaluateString_def Errorf_during
          split: panic_value.splits error.splits if_splits)
  qed
qed

theorem EvaluateString_confines_panics_witness:
  "EvaluateString sample_env (sample_bare sample_ctx) ''name | nofilter'' sample_heap
     = (Inr (VNil, Some (InterpreterError ''undefined filter: nofilter'')), sample_heap) \<and>
   EvaluateString sample_env (sample_bare sample_ctx) ''name[1]'' sample_heap
     = (Inl (PanicError (ErrorString
               ''runtime error: index out of range during evaluation of name[1]'')), sample_heap) \<and>
   EvaluateString sample_env (sample_bare sample_ctx) ''name'' sample_heap
     = (Inr (VString ''x'', None), sample_heap)"
proof -
  have recognised: "expression_EvaluateString sample_env ''name | nofilter''
      (NewContext (bindings (ctx (sample_bare sample_ctx)))
         (ExpressionConfig (settings (ctx (sample_bare sample_ctx))))) sample_heap
      = (Inl (PanicError (InterpreterError ''undefined filter: nofilter'')), sample_heap)"
    by (simp add: sample_env_def sample_EvaluateString_def)
  have other: "expression_EvaluateString sample_env ''name[1]''
      (NewContext (bindings (ctx (sample_bare sample_ctx)))
         (ExpressionConfig (settings (ctx (sample_bare sample_ctx))))) sample_heap
      = (Inl (PanicOther ''runtime error: index out of range''), sample_heap) \<and>
      PanicOther ''runtime error: index out of range'' \<noteq> PanicNil \<and>
      (\<forall>e. PanicOther ''runtime error: index out of range'' \<noteq> PanicError (InterpreterError e))"
    by (simp add: sample_env_def sample_EvaluateString_def)
  have returns: "expression_EvaluateString sample_env ''name''
      (NewContext (bindings (ctx (sample_bare sample_ctx)))
         (ExpressionConfig (settings (ctx (sample_bare sample_ctx))))) sample_heap
      = (Inr (VString ''x'', None), sample_heap)"
    by (simp add: sample_env_def sample_EvaluateString_def sample_bare_def sample_ctx_def
        sample_heap_def)
  have a: "EvaluateString sample_env (sample_bare sample_ctx) ''name | nofilter'' sample_heap
     = (Inr (VNil, Some (InterpreterError ''undefined filter: nofilter'')), sample_heap)"
    by (rule EvaluateString_confines_panics [THEN conjunct1, rule_format, OF recognised])
  have b: "EvaluateString sample_env (sample_bare sample_ctx) ''name[1]'' sample_heap
     = (Inl (PanicError (ErrorString
          (fmt_s (PanicOther ''runtime error: index out of range'')
             @ '' during evaluation of '' @ ''name[1]''))), sample_heap)"
    by (rule EvaluateString_confines_panics
          [THEN conjunct2, THEN conjunct1, rule_format, OF other])
  have c: "EvaluateString sample_env (sample_bare sample_ctx) ''name'' sample_heap
     = (Inr (VString ''x'', None), sample_heap)"
    by (rule EvaluateString_confines_panics
          [THEN conjunct2, THEN conjunct2, THEN conjunct1, rule_format, OF returns])
  from a b c show ?thesis by simp
qed

text \<open>
  The statement that every fault of the evaluator other than an \<open>InterpreterError\<close> is
  raised again with the source text fails for a panic with the nil value: the sample
  evaluator panics with nil on one source, and \<open>EvaluateString\<close> on that source returns a
  nil value and a nil error. It does not panic, and it reports no error.
\<close>

theorem EvaluateString_nil_panic_counterexample:
  "expression_EvaluateString sample_env ''name | nilpanic''
      (NewContext (bindings (ctx (sample_bare sample_ctx)))
         (ExpressionConfig (settings (ctx (sample_bare sample_ctx))))) sample_heap
     = (Inl PanicNil, sample_heap) \<and>
   EvaluateString sample_env (sample_bare sample_ctx) ''name | nilpanic'' sample_heap
     = (Inr (VNil, None), sample_heap) \<and>
   EvaluateString sample_env (sample_bare sample_ctx) ''name | nilpanic'' sample_heap
     \<noteq> (Inl (PanicError (ErrorString
            (fmt_s PanicNil @ '' during evaluation of '' @ ''name | nilpanic''))), sample_heap)"
  by (simp add: EvaluateString_def sample_env_def sample_EvaluateString_def)

text \<open>
  C8: \<open>EvaluateStatement tag source\<close> is \<open>EvaluateString\<close> applied to the string made of a
  percent sign, the tag name, a space and the source: same value, same error, same panic.
\<close>

theorem EvaluateStatement_delegates:
  "EvaluateStatement env c tag source h =
     EvaluateString env c (''%'' @ tag @ '' '' @ source) h"
  unfolding EvaluateStatement_def Sprintf_statement ..

theorem EvaluateStatement_delegates_witness:
  "EvaluateStatement sample_env (sample_bare sample_ctx) ''assign'' ''x = 1'' sample_heap =
     EvaluateString sample_env (sample_bare sample_ctx) ''%assign x = 1'' sample_heap"
  using EvaluateStatement_delegates
    [of sample_env "sample_bare sample_ctx" "''assign''" "''x = 1''" sample_heap]
  by simp

subsection \<open>Get and Set\<close>

text \<open>
  \<open>Set\<close> writes one entry of the map the context refers to and nothing else: the other
  names of that map and every other map of the store are as before.
\<close>

lemma Set_frame:
  "(n' \<noteq> n \<longrightarrow> Get c n' (Set c n v h) = Get c n' h) \<and>
   (r \<noteq> bindings (ctx c) \<longrightarrow> Set c n v h r = h r)"
  by (simp add: Get_def Set_def)

text \<open>
  \<open>UpdateBindings\<close> with one entry is \<open>Set\<close>; with more entries it is \<open>Set\<close> for the
  first and \<open>UpdateBindings\<close> for the rest.
\<close>

lemma UpdateBindings_Cons:
  "UpdateBindings c [] h = h \<and>
   UpdateBindings c ((k, v) # kvs) h = UpdateBindings c kvs (Set c k v h)"
  by (simp add: UpdateBindings_def Set_def)

text \<open>
  \<open>UpdateBindings\<close> adds the entries to the map; where a name occurs twice in the list, the
  later entry stays. The entries of a Go map have distinct keys, so the order in which the
  loop visits them does not matter: each name of the argument ends bound to its value.
\<close>

lemma UpdateBindings_map_add:
  "UpdateBindings c kvs h =
     h (bindings (ctx c) := h (bindings (ctx c)) ++ map_of (rev kvs))"
proof (induction kvs arbitrary: h)
  case Nil
  show ?case by (simp add: UpdateBindings_def)
next
  case (Cons kv kvs)
  obtain k v where kv: "kv = (k, v)" by (cases kv)
  have "UpdateBindings c (kv # kvs) h = UpdateBindings c kvs (Set c k v h)"
    by (simp add: kv UpdateBindings_def Set_def)
  also have "\<dots> = (Set c k v h) (bindings (ctx c) :=
      (Set c k v h) (bindings (ctx c)) ++ map_of (rev kvs))"
    by (rule Cons.IH)
  also have "\<dots> = h (bindings (ctx c) := h (bindings (ctx c)) ++ map_of (rev (kv # kvs)))"
    by (simp add: kv Set_def map_add_def fun_eq_iff split: option.splits)
  finally show ?case .
qed

lemma UpdateBindings_Get:
  assumes "distinct (map fst kvs)" and "(n, v) \<in> set kvs"
  shows "Get c n (UpdateBindings c kvs h) = v"
proof -
  have "distinct (map fst (rev kvs))" using assms(1) by (simp add: rev_map[symmetric])
  moreover have "(n, v) \<in> set (rev kvs)" using assms(2) by simp
  ultimately have "map_of (rev kvs) n = Some v" by (rule map_of_is_SomeI)
  then show ?thesis by (simp add: UpdateBindings_map_add Get_def)
qed

lemma UpdateBindings_Get_other:
  assumes "n \<notin> fst ` set kvs"
  shows "Get c n (UpdateBindings c kvs h) = Get c n h"
proof -
  have "map_of (rev kvs) n = None" using assms by (simp add: map_of_eq_None_iff)
  then show ?thesis by (simp add: UpdateBindings_map_add Get_def map_add_def)
qed

text \<open>
  C6: after \<open>Set n v\<close>, \<open>Get n\<close> returns \<open>v\<close>, whatever the store held before; a second
  \<open>Set\<close> of the same name replaces the value of the first, which \<open>Get\<close> no longer returns.
\<close>

theorem Set_then_Get:
  "Get c n (Set c n v h) = v \<and> Get c n (Set c n v (Set c n v0 h)) = v"
  by (simp add: Get_def Set_def)

theorem Set_then_Get_witness:
  "Get (sample_bare sample_ctx) ''name'' sample_heap = VString ''x'' \<and>
   Get (sample_bare sample_ctx) ''name''
     (Set (sample_bare sample_ctx) ''name'' (VInt 7) sample_heap) = VInt 7 \<and>
   Get (sample_bare sample_ctx) ''name''
     (Set (sample_bare sample_ctx) ''name'' (VInt 7)
        (Set (sample_bare sample_ctx) ''name'' (VBool True) sample_heap)) = VInt 7"
proof -
  have before: "Get (sample_bare sample_ctx) ''name'' sample_heap = VString ''x''"
    by (simp add: Get_def sample_bare_def sample_ctx_def sample_heap_def)
  from before
    Set_then_Get [of "sample_bare sample_ctx" "''name''" "VInt 7" sample_heap "VBool True"]
  show ?thesis by simp
qed

text \<open>
  C7: for a name that the bindings of the context do not hold, \<open>Get\<close> returns the nil
  value. \<open>Get\<close> is a total function into values: it has no error result and no panic.
\<close>

theorem Get_unbound:
  "h (bindings (ctx c)) n = None \<Longrightarrow> Get c n h = VNil"
  by (simp add: Get_def)

theorem Get_unbound_witness:
  "sample_heap (bindings (ctx (sample_bare sample_ctx))) ''missing'' = None \<and>
   Get (sample_bare sample_ctx) ''missing'' sample_heap = VNil"
proof -
  have unbound: "sample_heap (bindings (ctx (sample_bare sample_ctx))) ''missing'' = None"
    by (simp add: sample_bare_def sample_ctx_def sample_heap_def)
  from unbound
    Get_unbound [of sample_heap "sample_bare sample_ctx" "''missing''", OF unbound]
  show ?thesis by simp
qed

subsection \<open>RenderChildren and InnerString\<close>

text \<open>
  C9: when the block-node reference of the context is empty, \<open>RenderChildren\<close> returns no
  error, leaves the writer as it was and the store as it was, and \<open>InnerString\<close> returns
  the empty string and no error.
\<close>

theorem RenderChildren_no_body:
  "cn c = None \<Longrightarrow>
     RenderChildren env c w h = (None, w, h) \<and> InnerString env c h = (('''', None), h)"
  by (simp add: RenderChildren_def InnerString_def)

theorem RenderChildren_no_body_witness:
  "RenderChildren sample_env (sample_tag sample_ctx ''include'' ''a.html'') ''written'' sample_heap
     = (None, ''written'', sample_heap) \<and>
   InnerString sample_env (sample_tag sample_ctx ''include'' ''a.html'') sample_heap
     = (('''', None), sample_heap)"
proof -
  have functional: "cn (sample_tag sample_ctx ''include'' ''a.html'') = None"
    by (simp add: sample_tag_def)
  from RenderChildren_no_body [OF functional, of sample_env "''written''" sample_heap]
  show ?thesis by simp
qed

subsection \<open>ParseTagArgs\<close>

text \<open>
  C2: when the tag's argument text does not contain the two bytes \<^verbatim>\<open>{{\<close>, \<open>ParseTagArgs\<close>
  returns that text and no error, and the store is as before. When the text contains them,
  it is parsed as a template and rendered into a fresh buffer on the node context of the
  render context and the current store: the error of the parser or of the renderer is
  returned with the empty string, and otherwise the rendered text is returned with no error.
\<close>

theorem ParseTagArgs_cases:
  "(\<not> Contains (TagArgs c) ''{{'' \<longrightarrow> ParseTagArgs env c h = ((TagArgs c, None), h)) \<and>
   (Contains (TagArgs c) ''{{'' \<and> Parse env (settings (ctx c)) (TagArgs c) = Inl e
      \<longrightarrow> ParseTagArgs env c h = (('''', Some e), h)) \<and>
   (Contains (TagArgs c) ''{{'' \<and> Parse env (settings (ctx c)) (TagArgs c) = Inr p \<and>
    renderNode env p '''' (ctx c) h = (Some e, buf, h')
      \<longrightarrow> ParseTagArgs env c h = (('''', Some e), h')) \<and>
   (Contains (TagArgs c) ''{{'' \<and> Parse env (settings (ctx c)) (TagArgs c) = Inr p \<and>
    renderNode env p '''' (ctx c) h = (None, buf, h')
      \<longrightarrow> ParseTagArgs env c h = ((buf, None), h')) \<and>
   (Contains (TagArgs c) ''{{'' \<longleftrightarrow> (\<exists>ps ss. TagArgs c = ps @ ''{{'' @ ss))"
proof (intro conjI impI)
  assume "\<not> Contains (TagArgs c) ''{{''"
  then show "ParseTagArgs env c h = ((TagArgs c, None), h)"
    by (simp add: ParseTagArgs_def)
next
  assume "Contains (TagArgs c) ''{{'' \<and> Parse env (settings (ctx c)) (TagArgs c) = Inl e"
  then show "ParseTagArgs env c h = (('''', Some e), h)"
    by (simp add: ParseTagArgs_def)
next
  assume "Contains (TagArgs c) ''{{'' \<and> Parse env (settings (ctx c)) (TagArgs c) = Inr p \<and>
    renderNode env p '''' (ctx c) h = (Some e, buf, h')"
  then show "ParseTagArgs env c h = (('''', Some e), h')"
    by (simp add: ParseTagArgs_def)
next
  assume "Contains (TagArgs c) ''{{'' \<and> Parse env (settings (ctx c)) (TagArgs c) = Inr p \<and>
    renderNode env p '''' (ctx c) h = (None, buf, h')"
  then show "ParseTagArgs env c h = ((buf, None), h')"
    by (simp add: ParseTagArgs_def)
next
  show "Contains (TagArgs c) ''{{'' \<longleftrightarrow> (\<exists>ps ss. TagArgs c = ps @ ''{{'' @ ss)"
    by (rule Contains_iff)
qed

theorem ParseTagArgs_cases_witness:
  "ParseTagArgs sample_env (sample_tag sample_ctx ''include'' ''a.html'') sample_heap
     = ((''a.html'', None), sample_heap) \<and>
   ParseTagArgs sample_env (sample_tag sample_ctx ''include'' ''{{ name }}'') sample_heap
     = ((''x'', None), sample_heap) \<and>
   ParseTagArgs sample_env (sample_tag sample_ctx ''include'' ''{{ name'') sample_heap
     = (('''', Some (ParseError ''{{ name'')), sample_heap)"
proof -
  let ?plain = "sample_tag sample_ctx ''include'' ''a.html''"
  let ?marked = "sample_tag sample_ctx ''include'' ''{{ name }}''"
  let ?open = "sample_tag sample_ctx ''include'' ''{{ name''"
  have plain: "\<not> Contains (TagArgs ?plain) ''{{''"
    by (simp add: TagArgs_def sample_tag_def)
  have marked: "Contains (TagArgs ?marked) ''{{'' \<and>
      Parse sample_env (settings (ctx ?marked)) (TagArgs ?marked) = Inr (SObject ''name'') \<and>
      renderNode sample_env (SObject ''name'') '''' (ctx ?marked) sample_heap
        = (None, ''x'', sample_heap)"
    by (simp add: TagArgs_def sample_tag_def sample_env_def sample_Parse_def Get_def
        sample_bare_def sample_ctx_def sample_heap_def)
  have opened: "Contains (TagArgs ?open) ''{{'' \<and>
      Parse sample_env (settings (ctx ?open)) (TagArgs ?open) = Inl (ParseError ''{{ name'')"
    by (simp add: TagArgs_def sample_tag_def sample_env_def sample_Parse_def)
  have a: "ParseTagArgs sample_env ?plain sample_heap = ((TagArgs ?plain, None), sample_heap)"
    by (rule ParseTagArgs_cases [THEN conjunct1, rule_format, OF plain])
  have b: "ParseTagArgs sample_env ?marked sample_heap = ((''x'', None), sample_heap)"
    by (rule ParseTagArgs_cases
          [THEN conjunct2, THEN conjunct2, THEN conjunct2, THEN conjunct1, rule_format,
           OF marked])
  have c: "ParseTagArgs sample_env ?open sample_heap
             = (('''', Some (ParseError ''{{ name'')), sample_heap)"
    by (rule ParseTagArgs_cases [THEN conjunct2, THEN conjunct1, rule_format, OF opened])
  from a b c show ?thesis by (simp add: TagArgs_def sample_tag_def)
qed

subsection \<open>RenderFile\<close>

text \<open>
  C3: when reading the file fails, \<open>RenderFile\<close> returns the empty string and the error of
  the read, and the store is as before, whatever the parser and the renderer are: neither
  is consulted. When the read succeeds and the parser fails, the parser's error is returned
  with the empty string and nothing is rendered. When both succeed and the renderer fails,
  the renderer's error is returned with the empty string.
\<close>

theorem RenderFile_stage_errors:
  "(ioutil_ReadFile env filename = Inl e
      \<longrightarrow> RenderFile env c filename h = (('''', Some e), h) \<and>
          RenderFile (env\<lparr>Parse := parse', renderNode := render'\<rparr>) c filename h
            = (('''', Some e), h)) \<and>
   (ioutil_ReadFile env filename = Inr source \<and>
    Parse env (settings (ctx c)) source = Inl e
      \<longrightarrow> RenderFile env c filename h = (('''', Some e), h) \<and>
          RenderFile (env\<lparr>renderNode := render'\<rparr>) c filename h = (('''', Some e), h)) \<and>
   (ioutil_ReadFile env filename = Inr source \<and>
    Parse env (settings (ctx c)) source = Inr ast \<and>
    renderNode env ast '''' (ctx c) h = (Some e, buf, h')
      \<longrightarrow> RenderFile env c filename h = (('''', Some e), h'))"
  by (simp add: RenderFile_def)

theorem RenderFile_stage_errors_witness:
  "RenderFile sample_env (sample_bare sample_ctx) ''missing.tpl'' sample_heap
     = (('''', Some (PathError ''open'' ''missing.tpl'' ''no such file or directory'')),
        sample_heap) \<and>
   RenderFile sample_env (sample_bare sample_ctx) ''open.tpl'' sample_heap
     = (('''', Some (ParseError ''{{'')), sample_heap) \<and>
   RenderFile sample_env (sample_bare sample_ctx) ''broken.tpl'' sample_heap
     = (('''', Some (ErrorString ''broken tag'')), sample_heap)"
proof -
  let ?c = "sample_bare sample_ctx"
  have read: "ioutil_ReadFile sample_env ''missing.tpl''
      = Inl (PathError ''open'' ''missing.tpl'' ''no such file or directory'')"
    by (simp add: sample_env_def sample_ReadFile_def)
  have parse: "ioutil_ReadFile sample_env ''open.tpl'' = Inr ''{{'' \<and>
      Parse sample_env (settings (ctx ?c)) ''{{'' = Inl (ParseError ''{{'')"
    by (simp add: sample_env_def sample_ReadFile_def sample_Parse_def)
  have render: "ioutil_ReadFile sample_env ''broken.tpl'' = Inr ''{% broken %}'' \<and>
      Parse sample_env (settings (ctx ?c)) ''{% broken %}'' = Inr SBroken \<and>
      renderNode sample_env SBroken '''' (ctx ?c) sample_heap
        = (Some (ErrorString ''broken tag''), '''', sample_heap)"
    by (simp add: sample_env_def sample_ReadFile_def sample_Parse_def)
  have a: "RenderFile sample_env ?c ''missing.tpl'' sample_heap
     = (('''', Some (PathError ''open'' ''missing.tpl'' ''no such file or directory'')),
        sample_heap)"
    by (rule RenderFile_stage_errors
          [THEN conjunct1, rule_format, OF read, THEN conjunct1])
  have b: "RenderFile sample_env ?c ''open.tpl'' sample_heap
     = (('''', Some (ParseError ''{{'')), sample_heap)"
    by (rule RenderFile_stage_errors
          [THEN conjunct2, THEN conjunct1, rule_format, OF parse, THEN conjunct1])
  have c: "RenderFile sample_env ?c ''broken.tpl'' sample_heap
     = (('''', Some (ErrorString ''broken tag'')), sample_heap)"
    by (rule RenderFile_stage_errors
          [THEN conjunct2, THEN conjunct2, rule_format, OF render])
  from a b c show ?thesis by simp
qed

text \<open>
  C4: when the file is read and parsed, \<open>RenderFile\<close> renders the parsed template into a
  fresh buffer on the node context of the render context it was called on, and on the store
  as it is at the call: the node context is handed over as it is, with the same reference to
  the bindings. A render context built on that node context reads with \<open>Get\<close>, and evaluates
  with \<open>EvaluateString\<close>, exactly what the calling context does.
\<close>

theorem RenderFile_renders_on_current_bindings:
  "ioutil_ReadFile env filename = Inr source \<and> Parse env (settings (ctx c)) source = Inr ast
     \<longrightarrow> RenderFile env c filename h =
           (case renderNode env ast '''' (ctx c) h of
              (Some err, buf, h') \<Rightarrow> (('''', Some err), h')
            | (None, buf, h') \<Rightarrow> ((buf, None), h')) \<and>
         Get \<lparr>ctx = ctx c, node = nd, cn = b\<rparr> n h = Get c n h \<and>
         EvaluateString env \<lparr>ctx = ctx c, node = nd, cn = b\<rparr> s h = EvaluateString env c s h"
  by (simp add: RenderFile_def Get_def EvaluateString_def)

theorem RenderFile_renders_on_current_bindings_witness:
  "Get (sample_bare sample_ctx) ''name'' sample_heap = VString ''x'' \<and>
   RenderFile sample_env (sample_bare sample_ctx) ''show.tpl'' sample_heap
     = ((''x'', None), sample_heap)"
proof -
  let ?c = "sample_bare sample_ctx"
  have bound: "Get ?c ''name'' sample_heap = VString ''x''"
    by (simp add: Get_def sample_bare_def sample_ctx_def sample_heap_def)
  have stages: "ioutil_ReadFile sample_env ''show.tpl'' = Inr ''{{ name }}'' \<and>
      Parse sample_env (settings (ctx ?c)) ''{{ name }}'' = Inr (SObject ''name'')"
    by (simp add: sample_env_def sample_ReadFile_def sample_Parse_def)
  have rendered: "renderNode sample_env (SObject ''name'') '''' (ctx ?c) sample_heap
      = (None, ''x'', sample_heap)"
    using bound by (simp add: sample_env_def Get_def sample_bare_def)
  have "RenderFile sample_env ?c ''show.tpl'' sample_heap =
           (case renderNode sample_env (SObject ''name'') '''' (ctx ?c) sample_heap of
              (Some err, buf, h') \<Rightarrow> (('''', Some err), h')
            | (None, buf, h') \<Rightarrow> ((buf, None), h'))"
    by (rule RenderFile_renders_on_current_bindings [rule_format, OF stages, THEN conjunct1])
  with rendered bound show ?thesis by simp
qed

text \<open>
  C5, as the code has it: \<open>RenderFile\<close> opens no new scope. The included template is rendered
  on the calling context's own node context, so on the same bindings map, and the store
  after \<open>RenderFile\<close> is the store the rendering left. A binding written by \<open>Set\<close> or
  \<open>UpdateBindings\<close> through a render context built on that node context is read back by
  \<open>Get\<close> on the calling context. The store is as before when the read or the parse fails.
\<close>

theorem RenderFile_shares_scope:
  "(ioutil_ReadFile env filename = Inr source \<and>
    Parse env (settings (ctx c)) source = Inr ast \<and>
    renderNode env ast '''' (ctx c) h = (err, buf, h')
      \<longrightarrow> snd (RenderFile env c filename h) = h') \<and>
   (ctx c' = ctx c \<longrightarrow> Get c n (Set c' n v h) = v) \<and>
   (ctx c' = ctx c \<and> distinct (map fst kvs) \<and> (n, v) \<in> set kvs
      \<longrightarrow> Get c n (UpdateBindings c' kvs h) = v) \<and>
   (ioutil_ReadFile env filename = Inl e \<longrightarrow> snd (RenderFile env c filename h) = h) \<and>
   (ioutil_ReadFile env filename = Inr source \<and>
    Parse env (settings (ctx c)) source = Inl e
      \<longrightarrow> snd (RenderFile env c filename h) = h)"
proof (intro conjI impI)
  assume "ioutil_ReadFile env filename = Inr source \<and>
    Parse env (settings (ctx c)) source = Inr ast \<and>
    renderNode env ast '''' (ctx c) h = (err, buf, h')"
  then show "snd (RenderFile env c filename h) = h'"
    by (cases err) (simp_all add: RenderFile_def)
next
  assume "ctx c' = ctx c"
  then show "Get c n (Set c' n v h) = v"
    by (simp add: Get_def Set_def)
next
  assume a: "ctx c' = ctx c \<and> distinct (map fst kvs) \<and> (n, v) \<in> set kvs"
  then have "Get c' n (UpdateBindings c' kvs h) = v"
    by (simp add: UpdateBindings_Get)
  with a show "Get c n (UpdateBindings c' kvs h) = v"
    by (simp add: Get_def)
next
  assume "ioutil_ReadFile env filename = Inl e"
  then show "snd (RenderFile env c filename h) = h"
    by (simp add: RenderFile_def)
next
  assume "ioutil_ReadFile env filename = Inr source \<and>
    Parse env (settings (ctx c)) source = Inl e"
  then show "snd (RenderFile env c filename h) = h"
    by (simp add: RenderFile_def)
qed

theorem RenderFile_shares_scope_witness:
  "snd (RenderFile sample_env (sample_bare sample_ctx) ''assign.tpl'' sample_heap)
     = Set (sample_tag sample_ctx ''assign'' ''x'') ''x'' (VInt 1) sample_heap \<and>
   Get (sample_bare sample_ctx) ''x''
     (Set (sample_tag sample_ctx ''assign'' ''x'') ''x'' (VInt 1) sample_heap) = VInt 1 \<and>
   Get (sample_bare sample_ctx) ''y''
     (UpdateBindings (sample_tag sample_ctx ''assign'' ''x'')
        [(''x'', VInt 1), (''y'', VBool True)] sample_heap) = VBool True \<and>
   snd (RenderFile sample_env (sample_bare sample_ctx) ''missing.tpl'' sample_heap)
     = sample_heap \<and>
   snd (RenderFile sample_env (sample_bare sample_ctx) ''open.tpl'' sample_heap)
     = sample_heap"
proof -
  let ?c = "sample_bare sample_ctx"
  let ?t = "sample_tag sample_ctx ''assign'' ''x''"
  have stages: "ioutil_ReadFile sample_env ''assign.tpl'' = Inr ''{% assign x = 1 %}'' \<and>
      Parse sample_env (settings (ctx ?c)) ''{% assign x = 1 %}'' = Inr (SAssign ''x'' (VInt 1)) \<and>
      renderNode sample_env (SAssign ''x'' (VInt 1)) '''' (ctx ?c) sample_heap
        = (None, '''', Set ?t ''x'' (VInt 1) sample_heap)"
    by (simp add: sample_env_def sample_ReadFile_def sample_Parse_def sample_bare_def)
  have same: "ctx ?t = ctx ?c"
    by (simp add: sample_tag_def sample_bare_def)
  have entries: "ctx ?t = ctx ?c \<and>
      distinct (map fst [(''x'', VInt 1), (''y'', VBool True)]) \<and>
      (''y'', VBool True) \<in> set [(''x'', VInt 1), (''y'', VBool True)]"
    by (simp add: sample_tag_def sample_bare_def)
  have missing: "ioutil_ReadFile sample_env ''missing.tpl''
      = Inl (PathError ''open'' ''missing.tpl'' ''no such file or directory'')"
    by (simp add: sample_env_def sample_ReadFile_def)
  have unparsed: "ioutil_ReadFile sample_env ''open.tpl'' = Inr ''{{'' \<and>
      Parse sample_env (settings (ctx ?c)) ''{{'' = Inl (ParseError ''{{'')"
    by (simp add: sample_env_def sample_ReadFile_def sample_Parse_def)
  have a: "snd (RenderFile sample_env ?c ''assign.tpl'' sample_heap)
      = Set ?t ''x'' (VInt 1) sample_heap"
    by (rule RenderFile_shares_scope [THEN conjunct1, rule_format, OF stages])
  have b: "Get ?c ''x'' (Set ?t ''x'' (VInt 1) sample_heap) = VInt 1"
    by (rule RenderFile_shares_scope
          [THEN conjunct2, THEN conjunct1, rule_format, OF same])
  have c: "Get ?c ''y''
      (UpdateBindings ?t [(''x'', VInt 1), (''y'', VBool True)] sample_heap) = VBool True"
    by (rule RenderFile_shares_scope
          [THEN conjunct2, THEN conjunct2, THEN conjunct1, rule_format, OF entries])
  have d: "snd (RenderFile sample_env ?c ''missing.tpl'' sample_heap) = sample_heap"
    by (rule RenderFile_shares_scope
          [THEN conjunct2, THEN conjunct2, THEN conjunct2, THEN conjunct1, rule_format,
           OF missing])
  have e: "snd (RenderFile sample_env ?c ''open.tpl'' sample_heap) = sample_heap"
    by (rule RenderFile_shares_scope
          [THEN conjunct2, THEN conjunct2, THEN conjunct2, THEN conjunct2, rule_format,
           OF unparsed])
  from a b c d e show ?thesis by simp
qed

text \<open>
  The statement that file inclusion is write-isolated says that \<open>Get\<close> on the calling
  context returns after \<open>RenderFile\<close> what it returned before, for every name. It fails for
  an included file that assigns: the name \<open>x\<close> is unbound before the call and bound to
  \<open>1\<close> after it.
\<close>

theorem RenderFile_write_isolation_counterexample:
  "fst (RenderFile sample_env (sample_bare sample_ctx) ''assign.tpl'' sample_heap)
     = ('''', None) \<and>
   Get (sample_bare sample_ctx) ''x'' sample_heap = VNil \<and>
   Get (sample_bare sample_ctx) ''x''
     (snd (RenderFile sample_env (sample_bare sample_ctx) ''assign.tpl'' sample_heap))
     = VInt 1 \<and>
   Get (sample_bare sample_ctx) ''x''
     (snd (RenderFile sample_env (sample_bare sample_ctx) ''assign.tpl'' sample_heap))
     \<noteq> Get (sample_bare sample_ctx) ''x'' sample_heap"
  by (simp add: RenderFile_def sample_env_def sample_ReadFile_def sample_Parse_def
      sample_bare_def sample_tag_def sample_ctx_def sample_heap_def Get_def Set_def)

subsection \<open>TagName and TagArgs\<close>

text \<open>
  C10: when both the functional-node reference and the block-node reference are empty,
  \<open>TagName\<close> and \<open>TagArgs\<close> each return the empty string; when the functional-node
  reference is present, both accessors read it, whatever the block-node reference is.
\<close>

theorem TagName_TagArgs_dispatch:
  "(node c = None \<and> cn c = None \<longrightarrow> TagName c = '''' \<and> TagArgs c = '''') \<and>
   (node c = Some f \<longrightarrow>
      TagName c = Name (ASTFunctional.Chunk f) \<and> TagArgs c = Args (ASTFunctional.Chunk f))"
  by (simp add: TagName_def TagArgs_def)

theorem TagName_TagArgs_dispatch_witness:
  "TagName (sample_bare sample_ctx) = '''' \<and>
   TagArgs (sample_bare sample_ctx) = '''' \<and>
   TagName (sample_tag sample_ctx ''include'' ''a.html''
              \<lparr>cn := Some \<lparr>ASTBlock.Chunk = \<lparr>Name = ''for'', Args = ''x in xs''\<rparr>, Body = []\<rparr>\<rparr>)
     = ''include'' \<and>
   TagArgs (sample_tag sample_ctx ''include'' ''a.html''
              \<lparr>cn := Some \<lparr>ASTBlock.Chunk = \<lparr>Name = ''for'', Args = ''x in xs''\<rparr>, Body = []\<rparr>\<rparr>)
     = ''a.html''"
proof -
  let ?both = "sample_tag sample_ctx ''include'' ''a.html''
                 \<lparr>cn := Some \<lparr>ASTBlock.Chunk = \<lparr>Name = ''for'', Args = ''x in xs''\<rparr>, Body = []\<rparr>\<rparr>"
  have none: "node (sample_bare sample_ctx) = None \<and> cn (sample_bare sample_ctx) = None"
    by (simp add: sample_bare_def)
  have some: "node ?both = Some \<lparr>ASTFunctional.Chunk = \<lparr>Name = ''include'', Args = ''a.html''\<rparr>\<rparr>"
    by (simp add: sample_tag_def)
  from none some
    TagName_TagArgs_dispatch [of "sample_bare sample_ctx"]
    TagName_TagArgs_dispatch [of ?both "\<lparr>ASTFunctional.Chunk = \<lparr>Name = ''include'', Args = ''a.html''\<rparr>\<rparr>"]
  show ?thesis by simp
qed

end
